theory Spec2Isabelle
  imports Main
begin

section \<open>The OCR model comparison script\<close>

text \<open>
  A shallow embedding of \<^verbatim>\<open>compare_ocr_models.py\<close>: the runner
  \<^verbatim>\<open>run_ollama_ocr_integrated\<close>, the report generator
  \<^verbatim>\<open>generate_comparison_report\<close> and \<^verbatim>\<open>main\<close>.

  The script talks to four things outside itself: the directory of images, the HTTP
  inference endpoint, the file system that holds the OCR outputs, and the two streams it
  prints to. Each of them is an explicit argument of the model, and every exception the
  script can meet there is a value.
\<close>

subsection \<open>Python text\<close>

text \<open>
  A Python \<^verbatim>\<open>str\<close> is a sequence of Unicode code points, a \<^verbatim>\<open>bytes\<close>
  a sequence of octets. Both are lists of naturals here. \<open>ustr\<close> reads an ASCII literal.
\<close>

type_synonym pystr = "nat list"
type_synonym bytes = "nat list"

definition ustr :: "string \<Rightarrow> pystr" where
  "ustr s = map of_char s"

text \<open>
  \<^verbatim>\<open>str.replace(old, new)\<close> for one-character \<open>old\<close> and \<open>new\<close>, the only use the
  script makes of it.
\<close>

definition replace_char :: "nat \<Rightarrow> nat \<Rightarrow> pystr \<Rightarrow> pystr" where
  "replace_char old new s = map (\<lambda>c. if c = old then new else c) s"

text \<open>
  \<^verbatim>\<open>str.lower()\<close> on the letters A to Z. The script only compares the lowered
  suffix of a file name with \<^verbatim>\<open>.jpeg\<close>, \<^verbatim>\<open>.jpg\<close> and \<^verbatim>\<open>.png\<close>; no code
  point outside ASCII lowers to one of the characters of these three words, so the
  comparison comes out the same as with Python's full table.
\<close>

definition lower_cp :: "nat \<Rightarrow> nat" where
  "lower_cp c = (if 65 \<le> c \<and> c \<le> 90 then c + 32 else c)"

definition lower :: "pystr \<Rightarrow> pystr" where
  "lower s = map lower_cp s"

text \<open>
  \<^verbatim>\<open>str.strip()\<close> removes leading and trailing white space; \<open>isspace\<close> lists
  the code points Python counts as white space.
\<close>

definition isspace :: "nat \<Rightarrow> bool" where
  "isspace c \<longleftrightarrow>
     (9 \<le> c \<and> c \<le> 13) \<or> (28 \<le> c \<and> c \<le> 32) \<or> c = 133 \<or> c = 160 \<or> c = 5760 \<or>
     (8192 \<le> c \<and> c \<le> 8202) \<or> c = 8232 \<or> c = 8233 \<or> c = 8239 \<or> c = 8287 \<or> c = 12288"

definition strip :: "pystr \<Rightarrow> pystr" where
  "strip s = rev (dropWhile isspace (rev (dropWhile isspace s)))"

text \<open>
  \<^verbatim>\<open>xs[:n]\<close>: for a negative \<open>n\<close> Python counts from the end of the list.
\<close>

definition slice_to :: "int \<Rightarrow> 'a list \<Rightarrow> 'a list" where
  "slice_to n xs = (if 0 \<le> n then take (nat n) xs else take (length xs - nat (- n)) xs)"

subsection \<open>Paths\<close>

text \<open>
  A path is the list of its components. \<open>path_div p c\<close> is \<^verbatim>\<open>p / c\<close> of pathlib for
  a \<open>c\<close> without a separator (the script only appends such: a sanitised model name, and
  a stem followed by \<^verbatim>\<open>.txt\<close>); pathlib drops an empty component and a single dot.
\<close>

type_synonym path = "pystr list"

definition path_div :: "path \<Rightarrow> pystr \<Rightarrow> path" where
  "path_div p c = (if c = [] \<or> c = ustr ''.'' then p else p @ [c])"

text \<open>
  \<^verbatim>\<open>name.rfind('.')\<close>, and pathlib's \<^verbatim>\<open>suffix\<close> and \<^verbatim>\<open>stem\<close> of a file name:
  the name is split at its last dot unless that dot is the first or the last character.
\<close>

fun rfind :: "nat \<Rightarrow> pystr \<Rightarrow> nat option" where
  "rfind c [] = None"
| "rfind c (x # xs) =
     (case rfind c xs of
        Some i \<Rightarrow> Some (Suc i)
      | None \<Rightarrow> if x = c then Some 0 else None)"

definition suffix :: "pystr \<Rightarrow> pystr" where
  "suffix name =
     (case rfind 46 name of
        Some i \<Rightarrow> if 0 < i \<and> i < length name - 1 then drop i name else []
      | None \<Rightarrow> [])"

definition stem :: "pystr \<Rightarrow> pystr" where
  "stem name =
     (case rfind 46 name of
        Some i \<Rightarrow> if 0 < i \<and> i < length name - 1 then take i name else name
      | None \<Rightarrow> name)"

subsection \<open>The image directory\<close>

text \<open>
  An entry of the image directory: its name, whether \<^verbatim>\<open>is_file()\<close> holds, and what
  \<^verbatim>\<open>open(image_path, "rb")\<close> followed by \<^verbatim>\<open>read()\<close> gives. \<^verbatim>\<open>iterdir()\<close> yields the
  entries in an order the operating system chooses, so a listing is a list; it raises
  when the directory cannot be read.
\<close>

datatype error =
    FileNotFoundError
  | NotADirectoryError
  | FileExistsError
  | IsADirectoryError
  | UnicodeEncodeError
  | UnicodeDecodeError
  | AttributeError

datatype read_result = ReadOk bytes | ReadNotFound | ReadFailed

record dir_entry =
  entry_name :: pystr
  entry_is_file :: bool
  entry_read :: read_result

type_synonym listing = "error + dir_entry list"

definition is_image :: "dir_entry \<Rightarrow> bool" where
  "is_image f \<longleftrightarrow>
     entry_is_file f \<and>
     List.member [ustr ''.jpeg'', ustr ''.jpg'', ustr ''.png''] (lower (suffix (entry_name f)))"

text \<open>Lines 26 and 28 of the runner: the comprehension, then the slice.\<close>

definition image_files :: "dir_entry list \<Rightarrow> int \<Rightarrow> dir_entry list" where
  "image_files entries num_sample_images = slice_to num_sample_images (filter is_image entries)"

text \<open>Lines 88 to 95 of the report generator: the loop that appends stems, then the slice.\<close>

fun append_stems :: "dir_entry list \<Rightarrow> pystr list \<Rightarrow> pystr list" where
  "append_stems [] sample_images = sample_images"
| "append_stems (img_file # rest) sample_images =
     append_stems rest
       (if is_image img_file then sample_images @ [stem (entry_name img_file)]
        else sample_images)"

definition sample_images :: "dir_entry list \<Rightarrow> int \<Rightarrow> pystr list" where
  "sample_images entries num_sample_images = slice_to num_sample_images (append_stems entries [])"

subsection \<open>The store of OCR outputs\<close>

text \<open>
  The file system under the output directory: a path holds a directory, a text file or
  nothing. Paths are told apart by their components (the store has no symbolic links,
  and no component is taken to be \<^verbatim>\<open>..\<close>); the empty path is the directory the script
  runs in. A file holds the text its bytes decode to as UTF-8; a file that holds a
  surrogate code point stands for bytes that are not UTF-8.
\<close>

datatype node = Dir | File pystr

type_synonym fs = "path \<Rightarrow> node option"

definition node_at :: "fs \<Rightarrow> path \<Rightarrow> node option" where
  "node_at fs p = (if p = [] then Some Dir else fs p)"

definition path_exists :: "fs \<Rightarrow> path \<Rightarrow> bool" where
  "path_exists fs p \<longleftrightarrow> node_at fs p \<noteq> None"

text \<open>
  \<^verbatim>\<open>mkdir(parents=True, exist_ok=True)\<close>: every missing directory on the way to the
  path is created; a file on the way, or at the path itself, makes it raise.
  \<open>mkdir_from p cs\<close> walks the components \<open>cs\<close> that remain below \<open>p\<close>.
\<close>

fun mkdir_from :: "path \<Rightarrow> pystr list \<Rightarrow> fs \<Rightarrow> error + fs" where
  "mkdir_from p [] fs = Inr fs"
| "mkdir_from p (c # cs) fs =
     (case node_at fs (p @ [c]) of
        Some Dir \<Rightarrow> mkdir_from (p @ [c]) cs fs
      | Some (File t) \<Rightarrow> Inl (if cs = [] then FileExistsError else NotADirectoryError)
      | None \<Rightarrow> mkdir_from (p @ [c]) cs (fs(p @ [c] \<mapsto> Dir)))"

definition mkdir_parents :: "path \<Rightarrow> fs \<Rightarrow> error + fs" where
  "mkdir_parents p fs = mkdir_from [] p fs"

text \<open>
  \<^verbatim>\<open>open(p, "w", encoding="utf-8")\<close> creates the file, or empties the one that is
  there; it raises on a directory and when the parent is not a directory.
\<close>

definition open_w :: "fs \<Rightarrow> path \<Rightarrow> error + fs" where
  "open_w fs p =
     (case node_at fs p of
        Some Dir \<Rightarrow> Inl IsADirectoryError
      | _ \<Rightarrow>
         (case node_at fs (butlast p) of
            Some Dir \<Rightarrow> Inr (fs(p \<mapsto> File []))
          | Some (File t) \<Rightarrow> Inl NotADirectoryError
          | None \<Rightarrow> Inl FileNotFoundError))"

text \<open>
  \<^verbatim>\<open>outfile.write(text)\<close> encodes the text as UTF-8 first, which raises
  \<^verbatim>\<open>UnicodeEncodeError\<close> on a surrogate code point (the JSON decoder does produce
  lone surrogates, from escapes such as \<^verbatim>\<open>\ud800\<close>).
\<close>

definition surrogate :: "nat \<Rightarrow> bool" where
  "surrogate c \<longleftrightarrow> 55296 \<le> c \<and> c \<le> 57343"

definition encodable :: "pystr \<Rightarrow> bool" where
  "encodable s \<longleftrightarrow> \<not> list_ex surrogate s"

text \<open>
  Reading a file opened with \<^verbatim>\<open>open(p, "r", encoding="utf-8")\<close>: bytes that are
  not UTF-8 raise \<^verbatim>\<open>UnicodeDecodeError\<close>, and Python's universal newlines turn
  \<^verbatim>\<open>\r\n\<close> and a lone \<^verbatim>\<open>\r\<close> into \<^verbatim>\<open>\n\<close>. (Writing leaves \<^verbatim>\<open>\r\<close> alone, and
  \<^verbatim>\<open>\n\<close> too on a POSIX system, which is what is modelled.)
\<close>

fun universal_newlines :: "pystr \<Rightarrow> pystr" where
  "universal_newlines [] = []"
| "universal_newlines [c] = [if c = 13 then 10 else c]"
| "universal_newlines (c # d # cs) =
     (if c = 13 \<and> d = 10 then 10 # universal_newlines cs
      else if c = 13 then 10 # universal_newlines (d # cs)
      else c # universal_newlines (d # cs))"

definition read_text :: "fs \<Rightarrow> path \<Rightarrow> error + pystr" where
  "read_text fs p =
     (case node_at fs p of
        Some (File s) \<Rightarrow>
          if encodable s then Inr (universal_newlines s) else Inl UnicodeDecodeError
      | Some Dir \<Rightarrow> Inl IsADirectoryError
      | None \<Rightarrow> Inl FileNotFoundError)"

subsection \<open>The inference endpoint\<close>

text \<open>
  The JSON body of the request. \<open>B64 bs\<close> stands for the base64 text of the bytes
  \<open>bs\<close>, which \<^verbatim>\<open>b64encode\<close> computes without failing.
\<close>

datatype b64 = B64 bytes

record request =
  req_model :: pystr
  req_prompt :: pystr
  req_stream :: bool
  req_images :: "b64 list"

datatype json =
    JNull
  | JBool bool
  | JNum int
  | JStr pystr
  | JArr "json list"
  | JObj "(pystr \<times> json) list"

text \<open>
  What lines 60 to 63 give: \<^verbatim>\<open>requests.post\<close>, \<^verbatim>\<open>raise_for_status\<close> or
  \<^verbatim>\<open>response.json\<close> raises a \<^verbatim>\<open>RequestException\<close> (which carries a response or
  not), or one of them raises another exception, or the three return the decoded body.
  Which status codes and bodies lead where is the library's business. The endpoint is a
  function of the number of requests sent before and of the request.
\<close>

datatype http_outcome = RequestException bool | OtherException | Body json

type_synonym endpoint = "nat \<Rightarrow> request \<Rightarrow> http_outcome"

text \<open>
  \<^verbatim>\<open>dict.get(k, default)\<close> on a decoded object, whose members are listed in the
  order of the document: the last of several equal keys counts.
\<close>

definition dict_get :: "(pystr \<times> json) list \<Rightarrow> pystr \<Rightarrow> json \<Rightarrow> json" where
  "dict_get d k dflt = (case map_of (rev d) k of Some v \<Rightarrow> v | None \<Rightarrow> dflt)"

text \<open>
  Line 64, \<^verbatim>\<open>result.get("response", "").strip()\<close>: only an object has \<^verbatim>\<open>get\<close> and only
  a string has \<^verbatim>\<open>strip\<close>.
\<close>

definition response_text :: "json \<Rightarrow> error + pystr" where
  "response_text result =
     (case result of
        JObj d \<Rightarrow>
          (case dict_get d (ustr ''response'') (JStr []) of
             JStr s \<Rightarrow> Inr (strip s)
           | _ \<Rightarrow> Inl AttributeError)
      | _ \<Rightarrow> Inl AttributeError)"

subsection \<open>The runner\<close>

text \<open>What the runner prints, one constructor for each \<^verbatim>\<open>print\<close> of the source.\<close>

datatype log_line =
    NoImageFiles pystr
  | RunningModel pystr
  | ImageNotFound pystr
  | ImageReadError pystr
  | RunningImage pystr pystr
  | Saved pystr path
  | ApiError pystr pystr
  | ResponseContent
  | UnexpectedError pystr


text \<open>
  Printing. Standard output encodes what is printed with the encoding and the error
  handler of the environment, so \<^verbatim>\<open>print\<close> raises \<^verbatim>\<open>UnicodeEncodeError\<close> on a
  code point the stream cannot encode (with a UTF-8 locale: a lone surrogate, as in the
  name of a file whose bytes are not UTF-8). A stream is given by the code points it
  can encode; the fixed words of the messages are ASCII and are taken to print, so a
  message prints when the texts put into it do. A path is printed as its components
  with separators. Standard error replaces what it cannot encode by an escape and does
  not raise.
\<close>

type_synonym stream = "nat \<Rightarrow> bool"

definition prints :: "stream \<Rightarrow> pystr list \<Rightarrow> bool" where
  "prints stdout texts \<longleftrightarrow> list_all (list_all stdout) texts"

text \<open>
  The state the runner works on: the store, the requests sent to the endpoint so far,
  what has been printed so far, the local flag \<^verbatim>\<open>success_all\<close>, and the exception
  that has left the loop, if one has.
\<close>

record run_state =
  files :: fs
  requests :: "request list"
  printed :: "log_line list"
  success_all :: bool
  uncaught :: "error option"

record image_dir =
  dir_name :: pystr
  iterdir :: listing

definition prompt :: pystr where
  "prompt = ustr ''Extract all text from this image. Provide only the extracted text.''"

text \<open>Lines 51 to 56: the body of the request for one image.\<close>

definition payload :: "pystr \<Rightarrow> bytes \<Rightarrow> request" where
  "payload model_name image_data =
     \<lparr>req_model = model_name, req_prompt = prompt, req_stream = False,
      req_images = [B64 image_data]\<rparr>"

definition model_output_path :: "path \<Rightarrow> pystr \<Rightarrow> path" where
  "model_output_path base_output_dir model_name =
     path_div base_output_dir (replace_char 58 95 (replace_char 47 95 model_name))"

definition output_filename :: "path \<Rightarrow> pystr \<Rightarrow> path" where
  "output_filename out_dir image_name = path_div out_dir (stem image_name @ ustr ''.txt'')"

definition say :: "log_line list \<Rightarrow> run_state \<Rightarrow> run_state" where
  "say ls st = st\<lparr>printed := printed st @ ls\<rparr>"

definition failed :: "log_line list \<Rightarrow> run_state \<Rightarrow> run_state" where
  "failed ls st = (say ls st)\<lparr>success_all := False\<rparr>"

text \<open>
  The body of the loop, lines 37 to 77, for one image. The \<^verbatim>\<open>print\<close> of line 58 stands
  between the two \<^verbatim>\<open>try\<close> blocks: when it raises, the exception leaves the loop. The
  \<^verbatim>\<open>print\<close> of line 69 stands inside the second one: when it raises, after the file
  is written, line 76 logs it as an unexpected error.
\<close>

definition process_image ::
  "stream \<Rightarrow> endpoint \<Rightarrow> pystr \<Rightarrow> path \<Rightarrow> dir_entry \<Rightarrow> run_state \<Rightarrow> run_state" where
  "process_image stdout post model_name out_dir image_path st =
     (case entry_read image_path of
        ReadNotFound \<Rightarrow> failed [ImageNotFound (entry_name image_path)] st
      | ReadFailed \<Rightarrow> failed [ImageReadError (entry_name image_path)] st
      | ReadOk image_data \<Rightarrow>
          if \<not> prints stdout [model_name, entry_name image_path]
          then st\<lparr>uncaught := Some UnicodeEncodeError\<rparr>
          else
          (let st1 = (say [RunningImage model_name (entry_name image_path)] st)
                       \<lparr>requests := requests st @ [payload model_name image_data]\<rparr>
           in case post (length (requests st)) (payload model_name image_data) of
                RequestException has_response \<Rightarrow>
                  failed (ApiError model_name (entry_name image_path) #
                          (if has_response then [ResponseContent] else [])) st1
              | OtherException \<Rightarrow> failed [UnexpectedError (entry_name image_path)] st1
              | Body result \<Rightarrow>
                  (case response_text result of
                     Inl e \<Rightarrow> failed [UnexpectedError (entry_name image_path)] st1
                   | Inr ocr_text \<Rightarrow>
                       (let output_file = output_filename out_dir (entry_name image_path)
                        in case open_w (files st1) output_file of
                             Inl e \<Rightarrow> failed [UnexpectedError (entry_name image_path)] st1
                           | Inr fs1 \<Rightarrow>
                               if \<not> encodable ocr_text
                               then failed [UnexpectedError (entry_name image_path)]
                                      (st1\<lparr>files := fs1\<rparr>)
                               else if prints stdout (entry_name image_path # output_file)
                               then say [Saved (entry_name image_path) output_file]
                                      (st1\<lparr>files := fs1(output_file \<mapsto> File ocr_text)\<rparr>)
                               else failed [UnexpectedError (entry_name image_path)]
                                      (st1\<lparr>files := fs1(output_file \<mapsto> File ocr_text)\<rparr>)))))"

text \<open>The loop of line 36: it ends with the list, or with the first exception that leaves its body.\<close>

fun ocr_loop ::
  "stream \<Rightarrow> endpoint \<Rightarrow> pystr \<Rightarrow> path \<Rightarrow> dir_entry list \<Rightarrow> run_state \<Rightarrow> run_state" where
  "ocr_loop stdout post model_name out_dir [] st = st"
| "ocr_loop stdout post model_name out_dir (image_path # rest) st =
     (let st1 = process_image stdout post model_name out_dir image_path st
      in if uncaught st1 = None then ocr_loop stdout post model_name out_dir rest st1 else st1)"

text \<open>
  The runner. Its result is what it returns or raises, with the state it leaves behind.
  The source catches no exception of \<^verbatim>\<open>mkdir\<close>, of \<^verbatim>\<open>iterdir\<close>, or of the
  \<^verbatim>\<open>print\<close> of lines 35 and 58.
\<close>

definition run_ollama_ocr_integrated ::
  "stream \<Rightarrow> endpoint \<Rightarrow> pystr \<Rightarrow> image_dir \<Rightarrow> path \<Rightarrow> int \<Rightarrow> run_state \<Rightarrow>
   (error + bool) \<times> run_state" where
  "run_ollama_ocr_integrated stdout post model_name image_dir base_output_dir num_sample_images st =
     (let out_dir = model_output_path base_output_dir model_name
      in case mkdir_parents out_dir (files st) of
           Inl e \<Rightarrow> (Inl e, st)
         | Inr fs1 \<Rightarrow>
             (let st1 = st\<lparr>files := fs1\<rparr>
              in case iterdir image_dir of
                   Inl e \<Rightarrow> (Inl e, st1)
                 | Inr entries \<Rightarrow>
                     (let imgs = image_files entries num_sample_images
                      in if imgs = []
                         then (Inr False, say [NoImageFiles (dir_name image_dir)] st1)
                         else if \<not> prints stdout [model_name]
                         then (Inl UnicodeEncodeError, st1)
                         else (let st2 = ocr_loop stdout post model_name out_dir imgs
                                           ((say [RunningModel model_name] st1)
                                              \<lparr>success_all := True, uncaught := None\<rparr>)
                               in case uncaught st2 of
                                    Some e \<Rightarrow> (Inl e, st2)
                                  | None \<Rightarrow> (Inr (success_all st2), st2)))))"

subsection \<open>The report generator\<close>

text \<open>
  The report is the sequence of the strings the generator passes to \<^verbatim>\<open>f.write\<close>,
  one constructor for each \<^verbatim>\<open>write\<close> of the source. The report file is taken to open
  and to be apart from the store of OCR outputs, so the model returns what is written
  to it.
\<close>

datatype chunk =
    Title
  | Intro
  | NoSamples
  | ModelHeader pystr
  | DirNotFound
  | ImageHeader pystr
  | TextLabel
  | FenceOpen
  | Text pystr
  | FenceClose
  | EmptyText
  | Evaluation
  | ReadError pystr error
  | FileMissing
  | MissingEvaluation
  | Separator
  | SummaryLabel
  | SummaryBody



text \<open>
  The report file is opened with \<^verbatim>\<open>encoding="utf-8"\<close>, so \<^verbatim>\<open>f.write\<close> raises
  \<^verbatim>\<open>UnicodeEncodeError\<close> on a string with a surrogate. The fixed words hold none; what
  varies is the model name, the stem, the text read back and the message of an exception
  (where Python shows a path it escapes what cannot be printed, so the message encodes).
\<close>

fun writable :: "chunk \<Rightarrow> bool" where
  "writable (ModelHeader model_name) = encodable model_name"
| "writable (ImageHeader sample_image_stem) = encodable sample_image_stem"
| "writable (Text extracted_text) = encodable extracted_text"
| "writable (ReadError sample_image_stem e) = encodable sample_image_stem"
| "writable c = True"

text \<open>
  Lines 110 to 129: the writes of the entry of one sample image, in order. The header of
  line 111 is written outside the \<^verbatim>\<open>try\<close> of line 114, so when it cannot be written
  (\<open>writable\<close>) the exception leaves the generator: \<open>generate_comparison_report\<close> below
  ends the report before the first write that is not writable. Inside the \<^verbatim>\<open>try\<close>
  only opening and reading can raise: the text read back was decoded from UTF-8, and the
  stem has been written by then.
\<close>

definition report_image :: "fs \<Rightarrow> path \<Rightarrow> pystr \<Rightarrow> chunk list" where
  "report_image fs out_dir sample_image_stem =
     ImageHeader sample_image_stem #
     (let ocr_output_file = path_div out_dir (sample_image_stem @ ustr ''.txt'')
      in if path_exists fs ocr_output_file
         then (case read_text fs ocr_output_file of
                 Inl e \<Rightarrow> [ReadError sample_image_stem e]
               | Inr content \<Rightarrow>
                   (let extracted_text = strip content
                    in (if extracted_text \<noteq> []
                        then [TextLabel, FenceOpen, Text extracted_text, FenceClose]
                        else [EmptyText]) @ [Evaluation]))
         else [FileMissing, MissingEvaluation])"

text \<open>
  Lines 101 to 130: the writes of the section of one model, in order. The header of line
  101 is written outside every \<^verbatim>\<open>try\<close>; a model name that cannot be written ends the
  report in the same way.
\<close>

definition model_section :: "fs \<Rightarrow> path \<Rightarrow> pystr list \<Rightarrow> pystr \<Rightarrow> chunk list" where
  "model_section fs base_output_dir samples model_name =
     ModelHeader model_name #
     (let out_dir = model_output_path base_output_dir model_name
      in if \<not> path_exists fs out_dir
         then [DirNotFound]
         else concat (map (report_image fs out_dir) samples) @ [Separator])"

text \<open>
  The generator: what it wrote to the report, and the exception that left it, if one
  did. The two lines of the heading are written before the directory is read. Nothing
  that is read depends on what has been written, so the writes are listed first and the
  report is their longest prefix that can be written: the first \<^verbatim>\<open>f.write\<close> that raises
  (a header of line 101 or 111) ends the report where it stands, the \<^verbatim>\<open>with\<close> block
  closing the file. The \<^verbatim>\<open>print\<close> of line 135 comes after the file is closed.
\<close>

record report =
  raised :: "error option"
  written :: "chunk list"

definition generate_comparison_report ::
  "stream \<Rightarrow> pystr list \<Rightarrow> path \<Rightarrow> pystr \<Rightarrow> image_dir \<Rightarrow> int \<Rightarrow> fs \<Rightarrow> report" where
  "generate_comparison_report stdout models base_output_dir report_path image_dir
     num_sample_images fs =
     (case iterdir image_dir of
        Inl e \<Rightarrow> \<lparr>raised = Some e, written = [Title, Intro]\<rparr>
      | Inr entries \<Rightarrow>
          (let samples = sample_images entries num_sample_images
           in if samples = []
              then \<lparr>raised = None, written = [Title, Intro, NoSamples]\<rparr>
              else (let writes = [Title, Intro] @
                                 concat (map (model_section fs base_output_dir samples) models) @
                                 [SummaryLabel, SummaryBody]
                    in if list_all writable writes
                       then \<lparr>raised = (if prints stdout [report_path] then None
                                       else Some UnicodeEncodeError),
                             written = writes\<rparr>
                       else \<lparr>raised = Some UnicodeEncodeError,
                             written = takeWhile writable writes\<rparr>)))"

subsection \<open>The script\<close>

definition MODELS :: "pystr list" where
  "MODELS = [ustr ''yasserrmd/Nanonets-OCR-s:latest'', ustr ''MedAIBase/PaddleOCR-VL:0.9b'',
             ustr ''deepseek-ocr:latest'']"

definition IMAGE_DIRECTORY :: pystr where
  "IMAGE_DIRECTORY = ustr ''resources/receipts''"

definition BASE_OUTPUT_DIRECTORY :: path where
  "BASE_OUTPUT_DIRECTORY = [ustr ''result'', ustr ''ocr_outputs'']"

definition COMPARISON_REPORT_PATH :: pystr where
  "COMPARISON_REPORT_PATH = ustr ''result/ollama_ocr_comparison_results.md''"

definition NUM_SAMPLE_IMAGES :: int where
  "NUM_SAMPLE_IMAGES = 3"

text \<open>
  The loop of \<^verbatim>\<open>main\<close>: the runner once for each model, its flag dropped; an
  exception the runner raises ends the script.
\<close>

fun run_models ::
  "stream \<Rightarrow> endpoint \<Rightarrow> pystr list \<Rightarrow> image_dir \<Rightarrow> path \<Rightarrow> int \<Rightarrow> run_state \<Rightarrow>
   error + run_state" where
  "run_models stdout post [] image_dir base_output_dir n st = Inr st"
| "run_models stdout post (model # rest) image_dir base_output_dir n st =
     (case run_ollama_ocr_integrated stdout post model image_dir base_output_dir n st of
        (Inl e, st1) \<Rightarrow> Inl e
      | (Inr ok, st1) \<Rightarrow> run_models stdout post rest image_dir base_output_dir n st1)"

definition main ::
  "stream \<Rightarrow> endpoint \<Rightarrow> listing \<Rightarrow> run_state \<Rightarrow> error + run_state \<times> report" where
  "main stdout post entries st =
     (let image_dir = \<lparr>dir_name = IMAGE_DIRECTORY, iterdir = entries\<rparr>
      in case mkdir_parents BASE_OUTPUT_DIRECTORY (files st) of
           Inl e \<Rightarrow> Inl e
         | Inr fs1 \<Rightarrow>
             (case run_models stdout post MODELS image_dir BASE_OUTPUT_DIRECTORY
                     NUM_SAMPLE_IMAGES (st\<lparr>files := fs1\<rparr>) of
                Inl e \<Rightarrow> Inl e
              | Inr st1 \<Rightarrow>
                  (let r = generate_comparison_report stdout MODELS BASE_OUTPUT_DIRECTORY
                             COMPARISON_REPORT_PATH image_dir NUM_SAMPLE_IMAGES (files st1)
                   in case raised r of Some e \<Rightarrow> Inl e | None \<Rightarrow> Inr (st1, r))))"

subsection \<open>Reading the log and the report\<close>



text \<open>The bytes of an image that could be read.\<close>

fun readable :: "dir_entry \<Rightarrow> bytes list" where
  "readable f = (case entry_read f of ReadOk image_data \<Rightarrow> [image_data] | _ \<Rightarrow> [])"


text \<open>
  The inference call of the loop body fails: the image was read and the request, the
  status check or the decoding raises, or the body holds no text to strip.
\<close>

definition inference_fails :: "endpoint \<Rightarrow> pystr \<Rightarrow> dir_entry \<Rightarrow> run_state \<Rightarrow> bool" where
  "inference_fails post model_name image_path st =
     (case entry_read image_path of
        ReadOk image_data \<Rightarrow>
          (case post (length (requests st)) (payload model_name image_data) of
             Body result \<Rightarrow> isl (response_text result)
           | _ \<Rightarrow> True)
      | _ \<Rightarrow> False)"

text \<open>
  The text that line 64 binds to \<^verbatim>\<open>ocr_text\<close> in a pass on an image, when the pass gets
  that far: the image is read, lines 60 to 63 raise nothing, and the body holds a text to
  strip.
\<close>

definition ocr_text :: "endpoint \<Rightarrow> pystr \<Rightarrow> dir_entry \<Rightarrow> run_state \<Rightarrow> pystr option" where
  "ocr_text post model_name image_path st =
     (case entry_read image_path of
        ReadOk image_data \<Rightarrow>
          (case post (length (requests st)) (payload model_name image_data) of
             Body result \<Rightarrow> (case response_text result of Inr t \<Rightarrow> Some t | Inl e \<Rightarrow> None)
           | _ \<Rightarrow> None)
      | _ \<Rightarrow> None)"

text \<open>
  The text that line 68 writes in a pass, when the pass gets to the end of that line:
  line 58 prints, line 64 has a text, the output file opens, and the text encodes.
\<close>

definition persisted ::
  "stream \<Rightarrow> endpoint \<Rightarrow> pystr \<Rightarrow> path \<Rightarrow> dir_entry \<Rightarrow> run_state \<Rightarrow> pystr option" where
  "persisted stdout post model_name out_dir image_path st =
     (case ocr_text post model_name image_path st of
        None \<Rightarrow> None
      | Some t \<Rightarrow>
          if prints stdout [model_name, entry_name image_path] \<and>
             \<not> isl (open_w (files st) (output_filename out_dir (entry_name image_path))) \<and>
             encodable t
          then Some t else None)"

text \<open>
  A pass that line 58 does not leave fails when it ends in one of the \<^verbatim>\<open>except\<close> blocks
  of lines 40, 44, 70 and 75: the image cannot be read, or there is no text at line 64,
  or one of the lines 67 to 69 raises.
\<close>

definition image_fails ::
  "stream \<Rightarrow> endpoint \<Rightarrow> pystr \<Rightarrow> path \<Rightarrow> dir_entry \<Rightarrow> run_state \<Rightarrow> bool" where
  "image_fails stdout post model_name out_dir image_path st =
     (case ocr_text post model_name image_path st of
        None \<Rightarrow> True
      | Some t \<Rightarrow>
          isl (open_w (files st) (output_filename out_dir (entry_name image_path))) \<or>
          \<not> encodable t \<or>
          \<not> prints stdout
              (entry_name image_path # output_filename out_dir (entry_name image_path)))"


text \<open>
  The section of a model in a report: what is written after the first header of that
  model, up to the next header of a model or the summary. The entry of a sample image in
  a section: what is written after the first header of that stem, up to the next header
  of an image or the separator.
\<close>

fun section_end :: "chunk \<Rightarrow> bool" where
  "section_end (ModelHeader m) = True"
| "section_end SummaryLabel = True"
| "section_end c = False"

fun entry_end :: "chunk \<Rightarrow> bool" where
  "entry_end (ImageHeader s) = True"
| "entry_end Separator = True"
| "entry_end c = False"

fun section_of :: "pystr \<Rightarrow> chunk list \<Rightarrow> chunk list" where
  "section_of m [] = []"
| "section_of m (c # cs) =
     (if c = ModelHeader m then takeWhile (\<lambda>c. \<not> section_end c) cs else section_of m cs)"

fun entry_of :: "pystr \<Rightarrow> chunk list \<Rightarrow> chunk list" where
  "entry_of s [] = []"
| "entry_of s (c # cs) =
     (if c = ImageHeader s then takeWhile (\<lambda>c. \<not> entry_end c) cs else entry_of s cs)"

subsection \<open>Example inputs\<close>

text \<open>
  Small inputs on which the model is run: a state with nothing stored, sent or printed,
  a directory entry that is a file, a readable directory, an endpoint that answers
  its \<open>i\<close>-th request with the \<open>i\<close>-th text of a list (and fails after the last), and
  three standard outputs: an ASCII stream, a strict UTF-8 stream, which cannot encode a
  surrogate, and a UTF-8 stream with the handler \<^verbatim>\<open>surrogateescape\<close>, which writes the
  surrogates that stand for undecodable bytes of a file name back as these bytes.
  \<open>replying\<close> is an endpoint that meets its \<open>i\<close>-th request with the \<open>i\<close>-th outcome of a
  list. \<open>report_after\<close> is what \<^verbatim>\<open>main\<close> does after it has made the base directory, for
  any models and directories: the runs, then the report on the store they leave, when no
  run raises; \<open>entry_after\<close> is the entry of a model and a stem in that report. \<open>raw_entry\<close> is a file
  whose name starts with the byte \<^verbatim>\<open>FF\<close>, which is not UTF-8: \<^verbatim>\<open>iterdir\<close> gives the
  name with the surrogate \<^verbatim>\<open>U+DCFF\<close> in the place of that byte.
\<close>

definition fresh :: run_state where
  "fresh = \<lparr>files = Map.empty, requests = [], printed = [], success_all = False,
            uncaught = None\<rparr>"

definition image_entry :: "string \<Rightarrow> read_result \<Rightarrow> dir_entry" where
  "image_entry name r = \<lparr>entry_name = ustr name, entry_is_file = True, entry_read = r\<rparr>"

definition images_in :: "dir_entry list \<Rightarrow> image_dir" where
  "images_in entries = \<lparr>dir_name = ustr ''imgs'', iterdir = Inr entries\<rparr>"

definition answering :: "pystr list \<Rightarrow> endpoint" where
  "answering texts i r =
     (if i < length texts then Body (JObj [(ustr ''response'', JStr (texts ! i))])
      else OtherException)"

definition ascii :: stream where
  "ascii c \<longleftrightarrow> c < 128"

definition strict_utf8 :: stream where
  "strict_utf8 c \<longleftrightarrow> \<not> surrogate c"

definition surrogateescape :: stream where
  "surrogateescape c \<longleftrightarrow> (56448 \<le> c \<and> c \<le> 56575) \<or> \<not> surrogate c"

definition raw_entry :: "string \<Rightarrow> read_result \<Rightarrow> dir_entry" where
  "raw_entry name r = \<lparr>entry_name = 56575 # ustr name, entry_is_file = True, entry_read = r\<rparr>"

definition report_after ::
  "stream \<Rightarrow> endpoint \<Rightarrow> pystr list \<Rightarrow> image_dir \<Rightarrow> path \<Rightarrow> int \<Rightarrow> run_state \<Rightarrow> report option" where
  "report_after stdout post models image_dir base_output_dir n st =
     (case run_models stdout post models image_dir base_output_dir n st of
        Inl e \<Rightarrow> None
      | Inr st1 \<Rightarrow>
          Some (generate_comparison_report stdout models base_output_dir (ustr ''report.md'')
                  image_dir n (files st1)))"

definition replying :: "http_outcome list \<Rightarrow> endpoint" where
  "replying outcomes i r = (if i < length outcomes then outcomes ! i else OtherException)"

definition entry_after ::
  "stream \<Rightarrow> endpoint \<Rightarrow> pystr list \<Rightarrow> image_dir \<Rightarrow> path \<Rightarrow> int \<Rightarrow> run_state \<Rightarrow>
   pystr \<Rightarrow> pystr \<Rightarrow> chunk list option" where
  "entry_after stdout post models image_dir base_output_dir n st model_name sample_image_stem =
     (case report_after stdout post models image_dir base_output_dir n st of
        None \<Rightarrow> None
      | Some r \<Rightarrow> Some (entry_of sample_image_stem (section_of model_name (written r))))"

section \<open>Properties\<close>

lemma append_stems_filter:
  "append_stems es acc = acc @ map (\<lambda>f. stem (entry_name f)) (filter is_image es)"
  by (induction es arbitrary: acc) simp_all

lemma map_slice_to: "map f (slice_to n xs) = slice_to n (map f xs)"
  by (simp add: slice_to_def take_map)

text \<open>
  Claim C2. For every listing of the image directory and every sample count, the stems of
  the files the runner selects (comprehension, then slice) are, in the same order and
  with the same truncation, the stems the report generator collects (loop, then slice),
  when both see the same enumeration of the directory.
\<close>

theorem sample_lists_agree:
  "map (\<lambda>f. stem (entry_name f)) (image_files entries n) = sample_images entries n"
  by (simp add: image_files_def sample_images_def append_stems_filter map_slice_to)

subsection \<open>Text that is stripped, text without carriage returns\<close>








subsection \<open>Making directories\<close>

lemma mkdir_from_dir:
  "mkdir_from p cs fs = Inr fs' \<Longrightarrow> node_at fs p = Some Dir \<Longrightarrow> node_at fs' (p @ cs) = Some Dir"
proof (induction cs arbitrary: p fs)
  case Nil then show ?case by simp
next
  case (Cons c cs)
  show ?case
  proof (cases "node_at fs (p @ [c])")
    case None
    with Cons.prems have "mkdir_from (p @ [c]) cs (fs(p @ [c] \<mapsto> Dir)) = Inr fs'" by simp
    moreover have "node_at (fs(p @ [c] \<mapsto> Dir)) (p @ [c]) = Some Dir" by (simp add: node_at_def)
    ultimately have "node_at fs' ((p @ [c]) @ cs) = Some Dir" by (rule Cons.IH)
    then show ?thesis by simp
  next
    case (Some nd)
    with Cons.prems have nd: "nd = Dir" by (cases nd) simp_all
    with Some Cons.prems have "mkdir_from (p @ [c]) cs fs = Inr fs'" by simp
    moreover from Some nd have "node_at fs (p @ [c]) = Some Dir" by simp
    ultimately have "node_at fs' ((p @ [c]) @ cs) = Some Dir" by (rule Cons.IH)
    then show ?thesis by simp
  qed
qed

lemma mkdir_from_adds_dirs:
  "mkdir_from p cs fs = Inr fs' \<Longrightarrow> fs' q \<noteq> fs q \<Longrightarrow> fs' q = Some Dir \<and> fs q = None"
proof (induction cs arbitrary: p fs)
  case Nil then show ?case by simp
next
  case (Cons c cs)
  show ?case
  proof (cases "node_at fs (p @ [c])")
    case None
    with Cons.prems have m: "mkdir_from (p @ [c]) cs (fs(p @ [c] \<mapsto> Dir)) = Inr fs'" by simp
    from None have n: "fs (p @ [c]) = None" by (simp add: node_at_def)
    show ?thesis
    proof (cases "fs' q = (fs(p @ [c] \<mapsto> Dir)) q")
      case True
      with Cons.prems(2) n show ?thesis by (auto split: if_splits)
    next
      case False
      with m have "fs' q = Some Dir \<and> (fs(p @ [c] \<mapsto> Dir)) q = None" by (rule Cons.IH)
      then show ?thesis by (auto split: if_splits)
    qed
  next
    case (Some nd)
    with Cons.prems have nd: "nd = Dir" by (cases nd) simp_all
    with Some Cons.prems have "mkdir_from (p @ [c]) cs fs = Inr fs'" by simp
    from this Cons.prems(2) show ?thesis by (rule Cons.IH)
  qed
qed

lemma mkdir_parents_dir: "mkdir_parents p fs = Inr fs' \<Longrightarrow> node_at fs' p = Some Dir"
  using mkdir_from_dir [of "[]" p fs fs'] by (simp add: mkdir_parents_def node_at_def)

lemma mkdir_parents_keeps:
  "mkdir_parents p fs = Inr fs' \<Longrightarrow> node_at fs q = Some x \<Longrightarrow> node_at fs' q = Some x"
  using mkdir_from_adds_dirs [of "[]" p fs fs' q]
  by (cases "fs' q = fs q") (auto simp: mkdir_parents_def node_at_def split: if_splits)


subsection \<open>The shape of the report\<close>






lemma sample_images_one_png:
  "sample_images
     [\<lparr>entry_name = ustr ''a.png'', entry_is_file = True, entry_read = ReadOk [137, 80]\<rparr>] 1 =
   [ustr ''a'']"
  by (simp add: sample_images_def slice_to_def is_image_def ustr_def suffix_def stem_def
      lower_def lower_cp_def)












text \<open>The equations that run the model on a given input.\<close>

lemmas run_model =
  run_ollama_ocr_integrated_def Let_def process_image_def failed_def say_def response_text_def
  dict_get_def open_w_def node_at_def output_filename_def path_div_def encodable_def
  surrogate_def strip_def isspace_def stem_def suffix_def ustr_def payload_def
  model_output_path_def replace_char_def mkdir_parents_def image_files_def slice_to_def
  is_image_def lower_def lower_cp_def report_image_def model_section_def path_exists_def
  read_text_def generate_comparison_report_def sample_images_def fresh_def image_entry_def
  images_in_def answering_def prints_def ascii_def strict_utf8_def surrogateescape_def
  raw_entry_def report_after_def replying_def entry_after_def persisted_def ocr_text_def image_fails_def inference_fails_def







subsection \<open>The section of a model and the entry of an image\<close>













lemma model_section_of_dir:
  "node_at fs (model_output_path base m) = Some Dir \<Longrightarrow>
   model_section fs base samples m =
     ModelHeader m # concat (map (report_image fs (model_output_path base m)) samples) @ [Separator]"
  by (simp add: model_section_def path_exists_def)


subsection \<open>One pass through the loop, and the loop\<close>

lemma prints_Cons: "prints so (a # b) \<longleftrightarrow> list_all so a \<and> prints so b"
  by (simp add: prints_def)






lemma process_image_uncaught:
  "readable img = [] \<or> prints so [m, entry_name img] \<Longrightarrow>
   uncaught (process_image so post m d img st) = uncaught st"
  by (auto simp: process_image_def say_def failed_def Let_def
      split: read_result.split http_outcome.split sum.split)


lemma process_image_requests:
  "readable img = [] \<or> prints so [m, entry_name img] \<Longrightarrow>
   requests (process_image so post m d img st) = requests st @ map (payload m) (readable img)"
  by (auto simp: process_image_def say_def failed_def Let_def
      split: read_result.split http_outcome.split sum.split)

lemma open_w_changes:
  "open_w fs p = Inr made \<Longrightarrow>
   made = fs(p \<mapsto> File []) \<and> node_at fs p \<noteq> Some Dir \<and> node_at fs (butlast p) = Some Dir"
  by (auto simp: open_w_def split: option.splits node.splits)


lemma process_image_keeps_dir:
  "node_at (files st) q = Some Dir \<Longrightarrow>
   node_at (files (process_image so post m d img st)) q = Some Dir"
  by (auto simp: process_image_def say_def failed_def Let_def node_at_def
      dest!: open_w_changes
      split: read_result.split http_outcome.split sum.split if_splits)

lemma ocr_loop_uncaught:
  "uncaught st = None \<Longrightarrow>
   list_all (\<lambda>f. readable f = [] \<or> prints so [m, entry_name f]) imgs \<Longrightarrow>
   uncaught (ocr_loop so post m d imgs st) = None"
proof (induction imgs arbitrary: st)
  case Nil then show ?case by simp
next
  case (Cons img imgs)
  from Cons.prems have ok: "readable img = [] \<or> prints so [m, entry_name img]"
    and rest: "list_all (\<lambda>f. readable f = [] \<or> prints so [m, entry_name f]) imgs"
    by (simp_all del: readable.simps)
  from ok Cons.prems(1) have un: "uncaught (process_image so post m d img st) = None"
    by (simp add: process_image_uncaught)
  from un rest have "uncaught (ocr_loop so post m d imgs (process_image so post m d img st)) = None"
    by (rule Cons.IH)
  with un show ?case by (simp add: Let_def)
qed



lemma ocr_loop_requests:
  "uncaught st = None \<Longrightarrow>
   list_all (\<lambda>f. readable f = [] \<or> prints so [m, entry_name f]) imgs \<Longrightarrow>
   requests (ocr_loop so post m d imgs st) =
   requests st @ map (payload m) (concat (map readable imgs))"
proof (induction imgs arbitrary: st)
  case Nil then show ?case by simp
next
  case (Cons img imgs)
  from Cons.prems have ok: "readable img = [] \<or> prints so [m, entry_name img]"
    and rest: "list_all (\<lambda>f. readable f = [] \<or> prints so [m, entry_name f]) imgs"
    by (simp_all del: readable.simps)
  from ok Cons.prems(1) have un: "uncaught (process_image so post m d img st) = None"
    by (simp add: process_image_uncaught)
  from un rest have "requests (ocr_loop so post m d imgs (process_image so post m d img st)) =
      requests (process_image so post m d img st) @ map (payload m) (concat (map readable imgs))"
    by (rule Cons.IH)
  with un show ?case by (simp add: Let_def process_image_requests [OF ok] del: readable.simps)
qed


lemma ocr_loop_keeps_dir:
  "node_at (files st) q = Some Dir \<Longrightarrow>
   node_at (files (ocr_loop so post m d imgs st)) q = Some Dir"
  by (induction imgs arbitrary: st) (simp_all add: process_image_keeps_dir Let_def)

subsection \<open>The runner as a whole\<close>

lemma run_unfold:
  assumes "mkdir_parents (model_output_path base m) (files st) = Inr made"
    and "iterdir dir = Inr entries"
    and "image_files entries n = [] \<or> prints so [m]"
    and "list_all (\<lambda>f. readable f = [] \<or> prints so [m, entry_name f]) (image_files entries n)"
  shows "run_ollama_ocr_integrated so post m dir base n st =
     (if image_files entries n = []
      then (Inr False, say [NoImageFiles (dir_name dir)] (st\<lparr>files := made\<rparr>))
      else (Inr (success_all (ocr_loop so post m (model_output_path base m) (image_files entries n)
                   ((say [RunningModel m] (st\<lparr>files := made\<rparr>))
                      \<lparr>success_all := True, uncaught := None\<rparr>))),
            ocr_loop so post m (model_output_path base m) (image_files entries n)
                   ((say [RunningModel m] (st\<lparr>files := made\<rparr>))
                      \<lparr>success_all := True, uncaught := None\<rparr>)))"
proof -
  have "uncaught (ocr_loop so post m (model_output_path base m) (image_files entries n)
                   ((say [RunningModel m] (st\<lparr>files := made\<rparr>))
                      \<lparr>success_all := True, uncaught := None\<rparr>)) = None"
    using assms(4) by (intro ocr_loop_uncaught) simp_all
  with assms(1-3) show ?thesis
    by (auto simp: run_ollama_ocr_integrated_def Let_def)
qed

lemma image_files_nonneg:
  "0 \<le> n \<Longrightarrow> image_files entries n =
     take (min (length (filter is_image entries)) (nat n)) (filter is_image entries)"
  by (simp add: image_files_def slice_to_def min_def)

lemma image_files_neg:
  "n < 0 \<Longrightarrow> image_files entries n =
     take (length (filter is_image entries) - nat (- n)) (filter is_image entries)"
  by (simp add: image_files_def slice_to_def)




text \<open>
  Claim C3, as stated: the runner issues an inference request for each of the first
  \<open>min k N\<close> image files. It fails in four ways. On an image that cannot be read, lines
  40 to 47 log the error and go on to the next image, and no request is sent for this one:
  here the directory holds one image file, the sample count is 1, and no request is sent.
  When standard output cannot encode the name of an image, the \<^verbatim>\<open>print\<close> of line 58
  raises before the request of line 60 and leaves the loop: here two readable images are
  sampled and no request is sent. A negative sample count selects all but the last
  images, as Python slices: with three images and the count \<open>-1\<close>, two requests are sent.
  And when a file stands where the output directory should be, \<^verbatim>\<open>mkdir\<close> raises before
  any image is looked at.
\<close>

theorem no_request_for_some_sampled_images:
  "filter is_image [image_entry ''a.png'' ReadFailed] = [image_entry ''a.png'' ReadFailed] \<and>
   requests (snd (run_ollama_ocr_integrated strict_utf8 (answering []) (ustr ''m'')
      (images_in [image_entry ''a.png'' ReadFailed]) [ustr ''out''] 1 fresh)) = [] \<and>
   filter is_image [raw_entry ''.png'' (ReadOk [1]), image_entry ''b.png'' (ReadOk [2])] =
     [raw_entry ''.png'' (ReadOk [1]), image_entry ''b.png'' (ReadOk [2])] \<and>
   requests (snd (run_ollama_ocr_integrated strict_utf8 (answering [ustr ''hi'', ustr ''ho''])
      (ustr ''m'')
      (images_in [raw_entry ''.png'' (ReadOk [1]), image_entry ''b.png'' (ReadOk [2])])
      [ustr ''out''] 2 fresh)) = [] \<and>
   map req_images (requests (snd (run_ollama_ocr_integrated strict_utf8 (answering [])
      (ustr ''m'')
      (images_in [image_entry ''1.png'' (ReadOk [1]), image_entry ''2.png'' (ReadOk [2]),
                  image_entry ''3.png'' (ReadOk [3])])
      [ustr ''out''] (- 1) fresh))) = [[B64 [1]], [B64 [2]]] \<and>
   run_ollama_ocr_integrated strict_utf8 (answering [ustr ''hi'']) (ustr ''m'')
      (images_in [image_entry ''a.png'' (ReadOk [1])]) [ustr ''out''] 1
      \<lparr>files = [[ustr ''out''] \<mapsto> File []], requests = [], printed = [], success_all = False,
       uncaught = None\<rparr> =
     (Inl NotADirectoryError,
      \<lparr>files = [[ustr ''out''] \<mapsto> File []], requests = [], printed = [], success_all = False,
       uncaught = None\<rparr>)"
  by (simp add: run_model)

text \<open>
  Claim C3, amended: once the output directory is made and the image directory is listed,
  and provided standard output can encode the model name and the name of every sampled
  image that can be read, for an image directory with \<open>k\<close> image files and a sample count
  \<open>N\<close> the runner works on the first \<open>min k N\<close> of them when \<open>N\<close> is not negative (and on
  all but the last \<open>-N\<close> when it is), and it sends exactly one request for each of these
  that could be read, in directory order. With 5 readable images and sample count 3 that
  is 3 requests.
\<close>

theorem requests_for_sampled_images:
  assumes "mkdir_parents (model_output_path base m) (files st) = Inr made"
    and "iterdir dir = Inr entries"
    and "image_files entries n = [] \<or> prints so [m]"
    and "list_all (\<lambda>f. readable f = [] \<or> prints so [m, entry_name f]) (image_files entries n)"
  shows "requests (snd (run_ollama_ocr_integrated so post m dir base n st)) =
           requests st @ map (payload m) (concat (map readable (image_files entries n))) \<and>
         (0 \<le> n \<longrightarrow> image_files entries n =
            take (min (length (filter is_image entries)) (nat n)) (filter is_image entries)) \<and>
         (n < 0 \<longrightarrow> image_files entries n =
            take (length (filter is_image entries) - nat (- n)) (filter is_image entries))"
proof -
  have "requests (snd (run_ollama_ocr_integrated so post m dir base n st)) =
           requests st @ map (payload m) (concat (map readable (image_files entries n)))"
    using assms(4)
    by (simp add: run_unfold [OF assms] ocr_loop_requests say_def del: readable.simps)
  then show ?thesis by (simp add: image_files_nonneg image_files_neg)
qed

theorem requests_for_sampled_images_witness:
  "map req_images (requests (snd (run_ollama_ocr_integrated strict_utf8 (answering []) (ustr ''m'')
      (images_in [image_entry ''1.png'' (ReadOk [1]), image_entry ''2.jpg'' (ReadOk [2]),
                  image_entry ''notes.txt'' (ReadOk [0]), image_entry ''3.JPEG'' (ReadOk [3]),
                  image_entry ''4.png'' (ReadOk [4]), image_entry ''5.png'' (ReadOk [5])])
      [ustr ''out''] 3 fresh))) = [[B64 [1]], [B64 [2]], [B64 [3]]]"
  using requests_for_sampled_images
    [where base = "[ustr ''out'']" and m = "ustr ''m''" and st = fresh and post = "answering []"
       and n = 3 and so = strict_utf8
       and made = "[[ustr ''out''] \<mapsto> Dir, [ustr ''out'', ustr ''m''] \<mapsto> Dir]"
       and dir = "images_in [image_entry ''1.png'' (ReadOk [1]), image_entry ''2.jpg'' (ReadOk [2]),
                  image_entry ''notes.txt'' (ReadOk [0]), image_entry ''3.JPEG'' (ReadOk [3]),
                  image_entry ''4.png'' (ReadOk [4]), image_entry ''5.png'' (ReadOk [5])]"
       and entries = "[image_entry ''1.png'' (ReadOk [1]), image_entry ''2.jpg'' (ReadOk [2]),
                  image_entry ''notes.txt'' (ReadOk [0]), image_entry ''3.JPEG'' (ReadOk [3]),
                  image_entry ''4.png'' (ReadOk [4]), image_entry ''5.png'' (ReadOk [5])]"]
  by (simp add: mkdir_parents_def model_output_path_def path_div_def replace_char_def
        ustr_def node_at_def fresh_def images_in_def image_files_def slice_to_def is_image_def
        image_entry_def suffix_def lower_def lower_cp_def payload_def prints_def
        strict_utf8_def surrogate_def)

subsection \<open>What a run leaves in the store\<close>

lemma run_keeps_dir:
  "node_at (files st) q = Some Dir \<Longrightarrow>
   node_at (files (snd (run_ollama_ocr_integrated so post m dir base n st))) q = Some Dir"
  by (auto simp: run_ollama_ocr_integrated_def Let_def say_def
      intro!: ocr_loop_keeps_dir dest: mkdir_parents_keeps split: sum.split option.split)

lemma run_makes_dir:
  "fst (run_ollama_ocr_integrated so post m dir base n st) = Inr ok \<Longrightarrow>
   node_at (files (snd (run_ollama_ocr_integrated so post m dir base n st)))
     (model_output_path base m) = Some Dir"
  by (auto simp: run_ollama_ocr_integrated_def Let_def say_def
      intro!: ocr_loop_keeps_dir dest: mkdir_parents_dir split: sum.splits if_splits option.splits)

lemma run_models_keeps_dir:
  "run_models so post ms dir base n st = Inr st' \<Longrightarrow> node_at (files st) q = Some Dir \<Longrightarrow>
   node_at (files st') q = Some Dir"
proof (induction ms arbitrary: st)
  case Nil then show ?case by simp
next
  case (Cons m ms)
  obtain r st1 where r: "run_ollama_ocr_integrated so post m dir base n st = (r, st1)"
    by (cases "run_ollama_ocr_integrated so post m dir base n st")
  with Cons.prems(1) obtain ok where "r = Inr ok" "run_models so post ms dir base n st1 = Inr st'"
    by (cases r) simp_all
  moreover have "node_at (files st1) q = Some Dir"
    using run_keeps_dir [OF Cons.prems(2), of so post m dir base n] r by simp
  ultimately show ?case using Cons.IH by blast
qed

lemma no_dir_not_found_in_image: "DirNotFound \<notin> set (report_image fs d s)"
  by (simp add: report_image_def Let_def split: sum.split)

text \<open>
  Claim C9. The runner makes the output directory of the model before it looks at the
  images, so whenever it returns a flag (also the flag false of a directory without
  images) the directory is there; it is still there after any further runs, and the
  section of this model in a report generated then does not contain the line
  \<^verbatim>\<open>OCR run failed or output directory not found\<close>.
\<close>

theorem output_directory_exists:
  assumes "fst (run_ollama_ocr_integrated so post m dir base n st) = Inr ok"
    and "run_models so' post' rest dir' base' n'
           (snd (run_ollama_ocr_integrated so post m dir base n st)) = Inr st2"
  shows "node_at (files (snd (run_ollama_ocr_integrated so post m dir base n st)))
           (model_output_path base m) = Some Dir \<and>
         path_exists (files st2) (model_output_path base m) \<and>
         DirNotFound \<notin> set (model_section (files st2) base samples m)"
proof -
  have 1: "node_at (files (snd (run_ollama_ocr_integrated so post m dir base n st)))
           (model_output_path base m) = Some Dir"
    using assms(1) by (rule run_makes_dir)
  have 2: "node_at (files st2) (model_output_path base m) = Some Dir"
    using assms(2) 1 by (rule run_models_keeps_dir)
  show ?thesis
    by (simp add: 1 2 path_exists_def model_section_of_dir no_dir_not_found_in_image)
qed

theorem output_directory_exists_witness:
  "node_at (files (snd (run_ollama_ocr_integrated strict_utf8 (answering [])
             (ustr ''deepseek-ocr:latest'') (images_in []) BASE_OUTPUT_DIRECTORY
             NUM_SAMPLE_IMAGES fresh)))
           (model_output_path BASE_OUTPUT_DIRECTORY (ustr ''deepseek-ocr:latest'')) = Some Dir \<and>
   path_exists (files (snd (run_ollama_ocr_integrated strict_utf8 (answering [])
             (ustr ''deepseek-ocr:latest'') (images_in []) BASE_OUTPUT_DIRECTORY
             NUM_SAMPLE_IMAGES fresh)))
           (model_output_path BASE_OUTPUT_DIRECTORY (ustr ''deepseek-ocr:latest'')) \<and>
   DirNotFound \<notin> set (model_section
      (files (snd (run_ollama_ocr_integrated strict_utf8 (answering [])
             (ustr ''deepseek-ocr:latest'') (images_in []) BASE_OUTPUT_DIRECTORY
             NUM_SAMPLE_IMAGES fresh)))
      BASE_OUTPUT_DIRECTORY [ustr ''a''] (ustr ''deepseek-ocr:latest''))"
  by (rule output_directory_exists
        [where ok = False and rest = "[]" and post' = "answering []" and dir' = "images_in []"
           and base' = "[]" and n' = 0 and so' = strict_utf8])
     (simp_all add: run_model BASE_OUTPUT_DIRECTORY_def NUM_SAMPLE_IMAGES_def)

subsection \<open>What later passes and later runs leave alone\<close>












subsection \<open>From the runner to the report\<close>



























subsection \<open>The files of a run\<close>









end
